theory Spec2Isabelle
  imports Main
begin

section \<open>JavaScript values used by the review pipeline\<close>

text \<open>
  A numeric field that may be missing is an \<open>int option\<close>; the source reads such fields
  as \<^verbatim>\<open>x || 0\<close>, which is 0 for a missing field (and for 0 itself).
\<close>

definition or0 :: "int option \<Rightarrow> int" where
  "or0 x = (case x of None \<Rightarrow> 0 | Some n \<Rightarrow> n)"

text \<open>An array field read as \<^verbatim>\<open>xs || []\<close>.\<close>

definition or_nil :: "'a list option \<Rightarrow> 'a list" where
  "or_nil x = (case x of None \<Rightarrow> [] | Some xs \<Rightarrow> xs)"

section \<open>The chunker (OpenAIService.chunkChanges)\<close>

text \<open>One entry of the merge request diff, with the fields the service reads.\<close>

record file_change =
  new_path :: "string option"
  old_path :: "string option"
  diff :: "string option"
  additions :: "int option"
  deletions :: "int option"
  new_file :: bool
  deleted_file :: bool
  renamed_file :: bool

definition maxFilesPerChunk :: nat where
  "maxFilesPerChunk = 10"

definition maxLinesPerChunk :: int where
  "maxLinesPerChunk = 1000"

definition fileLines :: "file_change \<Rightarrow> int" where
  "fileLines change = or0 (additions change) + or0 (deletions change)"

text \<open>The three local variables of the loop: \<open>chunks\<close>, \<open>currentChunk\<close>, \<open>currentLines\<close>.\<close>

record chunker =
  chunks :: "file_change list list"
  currentChunk :: "file_change list"
  currentLines :: int

text \<open>
  The body of \<^verbatim>\<open>for (const change of changes)\<close>: close the current chunk when it is
  full or the file would take it over the line limit (only a non-empty chunk is
  closed), then push the file.
\<close>

definition chunk_step :: "chunker \<Rightarrow> file_change \<Rightarrow> chunker" where
  "chunk_step s change =
     (let s1 =
        (if length (currentChunk s) \<ge> maxFilesPerChunk
            \<or> currentLines s + fileLines change > maxLinesPerChunk
         then (if length (currentChunk s) > 0
               then s\<lparr>chunks := chunks s @ [currentChunk s], currentChunk := [], currentLines := 0\<rparr>
               else s)
         else s)
      in s1\<lparr>currentChunk := currentChunk s1 @ [change],
             currentLines := currentLines s1 + fileLines change\<rparr>)"

definition chunkChanges :: "file_change list \<Rightarrow> file_change list list" where
  "chunkChanges changes =
     (let s = foldl chunk_step \<lparr>chunks = [], currentChunk = [], currentLines = 0\<rparr> changes
      in if length (currentChunk s) > 0 then chunks s @ [currentChunk s] else chunks s)"

section \<open>Rendering numbers and joining lines\<close>

text \<open>
  A template literal renders a number in decimal: \<open>decimal\<close> for the lengths and
  counts, \<open>number_text\<close> for a number that may be negative.
\<close>

definition digit :: "nat \<Rightarrow> char" where
  "digit d = ''0123456789'' ! d"

fun decimal :: "nat \<Rightarrow> string" where
  "decimal n = (if 10 \<le> n then decimal (n div 10) @ [digit (n mod 10)] else [digit n])"

declare decimal.simps [simp del]

definition number_text :: "int \<Rightarrow> string" where
  "number_text i = (if 0 \<le> i then decimal (nat i) else CHR ''-'' # decimal (nat (- i)))"

definition nl :: string where
  "nl = [CHR 0x0A]"

text \<open>\<^verbatim>\<open>Array.prototype.join\<close>.\<close>

fun join :: "string \<Rightarrow> string list \<Rightarrow> string" where
  "join sep [] = []"
| "join sep [x] = x"
| "join sep (x # y # ys) = x @ sep @ join sep (y # ys)"

section \<open>The prompt context (prepareMRContext, buildReviewPrompt)\<close>

record merge_request =
  mr_title :: string
  mr_description :: "string option"
  source_branch :: string
  target_branch :: string
  mr_author_name :: "string option"

record commit =
  message :: string

record mr_context =
  title :: string
  description :: "string option"
  sourceBranch :: string
  targetBranch :: string
  author :: "string option"
  changedFiles :: nat
  totalAdditions :: int
  totalDeletions :: int
  commitCount :: nat
  recentCommitMessages :: "string list"

definition prepareMRContext :: "merge_request \<Rightarrow> file_change list \<Rightarrow> commit list \<Rightarrow> mr_context" where
  "prepareMRContext mrData changes commits =
     \<lparr>title = mr_title mrData,
      description = mr_description mrData,
      sourceBranch = source_branch mrData,
      targetBranch = target_branch mrData,
      author = mr_author_name mrData,
      changedFiles = length changes,
      totalAdditions = foldl (\<lambda>sum file. sum + or0 (additions file)) 0 changes,
      totalDeletions = foldl (\<lambda>sum file. sum + or0 (deletions file)) 0 changes,
      commitCount = length commits,
      recentCommitMessages = map message (take 5 commits)\<rparr>"

text \<open>\<^verbatim>\<open>${x}\<close> of a string that may be undefined, and \<^verbatim>\<open>x || d\<close> of a string
  (the empty string is falsy).\<close>

definition tpl :: "string option \<Rightarrow> string" where
  "tpl x = (case x of None \<Rightarrow> ''undefined'' | Some s \<Rightarrow> s)"

definition or_str :: "string option \<Rightarrow> string option \<Rightarrow> string option" where
  "or_str x d = (case x of None \<Rightarrow> d | Some s \<Rightarrow> (if s = [] then d else Some s))"

text \<open>The arrow of the branch line, U+2192, as its UTF-8 bytes.\<close>

definition arrow :: string where
  "arrow = [CHR 0xE2, CHR 0x86, CHR 0x92]"

text \<open>The commit messages the prompt lists:
  \<^verbatim>\<open>context.recentCommitMessages.slice(0, 3)\<close>.\<close>

definition promptCommitMessages :: "mr_context \<Rightarrow> string list" where
  "promptCommitMessages context = take 3 (recentCommitMessages context)"

text \<open>The lines of \<open>contextInfo\<close> before the commit messages.\<close>

definition contextHeader :: "mr_context \<Rightarrow> nat \<Rightarrow> nat \<Rightarrow> string" where
  "contextHeader context chunkIndex totalChunks =
     nl @ ''Merge Request Context:'' @ nl
     @ ''- Title: '' @ title context @ nl
     @ ''- Description: '' @ tpl (or_str (description context) (Some ''No description'')) @ nl
     @ ''- Branch: '' @ sourceBranch context @ '' '' @ arrow @ '' '' @ targetBranch context @ nl
     @ ''- Author: '' @ tpl (author context) @ nl
     @ ''- Files changed: '' @ decimal (changedFiles context) @ nl
     @ ''- Lines: +'' @ number_text (totalAdditions context)
     @ '' -'' @ number_text (totalDeletions context) @ nl
     @ (if totalChunks > 1
        then ''- Reviewing chunk '' @ decimal (chunkIndex + 1) @ '' of ''
             @ decimal totalChunks
        else [])
     @ nl @ nl @ ''Recent commit messages:'' @ nl"

definition contextInfo :: "mr_context \<Rightarrow> nat \<Rightarrow> nat \<Rightarrow> string" where
  "contextInfo context chunkIndex totalChunks =
     contextHeader context chunkIndex totalChunks
     @ join nl (map (\<lambda>msg. ''- '' @ msg) (promptCommitMessages context)) @ nl"

definition fileInfo :: "file_change \<Rightarrow> string" where
  "fileInfo change =
     nl @ ''--- File: '' @ tpl (or_str (new_path change) (old_path change)) @ '' ---'' @ nl
     @ (if new_file change then ''[NEW FILE]'' else [])
     @ (if deleted_file change then ''[DELETED FILE]'' else [])
     @ (if renamed_file change then ''[RENAMED FILE]'' else [])
     @ nl @ tpl (or_str (diff change) (Some [])) @ nl"

text \<open>\<open>systemPrompt\<close> is the constant \<^verbatim>\<open>CODE_REVIEW_SYSTEM_PROMPT\<close>.\<close>

definition buildReviewPrompt ::
  "string \<Rightarrow> mr_context \<Rightarrow> file_change list \<Rightarrow> nat \<Rightarrow> nat \<Rightarrow> string" where
  "buildReviewPrompt systemPrompt context changes chunkIndex totalChunks =
     systemPrompt @ nl @ nl @ contextInfo context chunkIndex totalChunks @ nl @ nl
     @ ''Changes to review:'' @ nl @ join nl (map fileInfo changes)"

text \<open>The prompts \<open>generateCodeReview\<close> sends, one per chunk, in chunk order.\<close>

definition reviewPrompts ::
  "string \<Rightarrow> merge_request \<Rightarrow> file_change list \<Rightarrow> commit list \<Rightarrow> string list" where
  "reviewPrompts systemPrompt mrData changes commits =
     (let context = prepareMRContext mrData changes commits;
          chunks = chunkChanges changes
      in map (\<lambda>(index, chunk). buildReviewPrompt systemPrompt context chunk index (length chunks))
             (enumerate 0 chunks))"

section \<open>Review results and the reducer (combineReviews)\<close>

text \<open>
  An issue as the model reports it, parsed from its JSON without validation:
  \<open>line\<close>, \<open>type\<close> (here \<open>issue_type\<close>), \<open>severity\<close> and \<open>suggestion\<close> may be
  missing. An \<open>issue_type\<close> of \<open>None\<close> is a type that is missing or not a string.
  The containers are typed: \<open>fileReviews\<close> and \<open>issues\<close>, where present, are arrays
  of objects.
\<close>

record issue =
  line :: "int option"
  issue_type :: "string option"
  severity :: "string option"
  issue_message :: string
  suggestion :: "string option"

record file_review =
  filename :: string
  issues :: "issue list option"
  positives :: "string list"

record issue_counts =
  high :: nat
  medium :: nat
  low :: nat

text \<open>
  A review object. A chunk result has \<open>tokensUsed\<close> and \<open>identifier\<close> (here \<open>chunk_identifier\<close>); the combined
  result of several chunks has \<open>issueCounts\<close> and \<open>totalTokensUsed\<close>. A field an object
  does not have is \<open>None\<close>.
\<close>

record review =
  summary :: "string option"
  fileReviews :: "file_review list option"
  overallRecommendation :: "string option"
  keyInsights :: "string list option"
  tokensUsed :: "int option"
  chunk_identifier :: "string option"
  issueCounts :: "issue_counts option"
  totalTokensUsed :: "int option"

definition combineReviews :: "review list \<Rightarrow> review" where
  "combineReviews chunkReviews =
     (if length chunkReviews = 1 then chunkReviews ! 0
      else
        let allFileReviews = concat (map (\<lambda>review. or_nil (fileReviews review)) chunkReviews);
            allIssues = concat (map (\<lambda>file. or_nil (issues file)) allFileReviews);
            counts = \<lparr>high = length (filter (\<lambda>issue. severity issue = Some ''high'') allIssues),
                      medium = length (filter (\<lambda>issue. severity issue = Some ''medium'') allIssues),
                      low = length (filter (\<lambda>issue. severity issue = Some ''low'') allIssues)\<rparr>;
            recommendation =
              (if high counts > 0 then ''request-changes''
               else if medium counts > 2 \<or> low counts > 5 then ''comment''
               else ''approve'');
            combinedSummary =
              ''Reviewed '' @ decimal (length allFileReviews) @ '' files with ''
              @ decimal (length allIssues) @ '' total issues found: ''
              @ decimal (high counts) @ '' high, ''
              @ decimal (medium counts) @ '' medium, ''
              @ decimal (low counts) @ '' low severity issues.'';
            allKeyInsights = concat (map (\<lambda>review. or_nil (keyInsights review)) chunkReviews)
        in \<lparr>summary = Some combinedSummary,
            fileReviews = Some allFileReviews,
            overallRecommendation = Some recommendation,
            keyInsights = Some allKeyInsights,
            tokensUsed = None,
            chunk_identifier = None,
            issueCounts = Some counts,
            totalTokensUsed =
              Some (foldl (\<lambda>sum review. sum + or0 (tokensUsed review)) 0 chunkReviews)\<rparr>)"

section \<open>Remote operations and their retries\<close>

text \<open>
  A remote operation is modelled by its script: \<open>fn k\<close> is the outcome of its \<open>k\<close>-th
  invocation (\<open>Inl\<close> a rejection, \<open>Inr\<close> a value). Each iteration of a retry loop
  invokes the operation once, so the invocation made during attempt \<open>k\<close> is the
  \<open>k\<close>-th. A run records what the caller observes: the outcome, and the invocations
  and timer waits (in milliseconds) in the order they happened.
\<close>

datatype event = Invoke | Wait int

record 'r run =
  outcome :: 'r
  events :: "event list"

subsection \<open>helpers.retryWithBackoff\<close>

text \<open>
  The outcome is \<open>Inr v\<close> for \<^verbatim>\<open>return await fn()\<close> and \<open>Inl lastError\<close> for
  \<^verbatim>\<open>throw lastError\<close>, where \<open>lastError\<close> is \<open>None\<close> while it is still undefined.
\<close>

function retry_loop ::
  "(nat \<Rightarrow> 'e + 'a) \<Rightarrow> nat \<Rightarrow> int \<Rightarrow> nat \<Rightarrow> 'e option \<Rightarrow> event list
     \<Rightarrow> ('e option + 'a) run" where
  "retry_loop fn maxAttempts baseDelay attempt lastError evs =
     (if attempt \<le> maxAttempts then
        (case fn attempt of
           Inr v \<Rightarrow> \<lparr>outcome = Inr v, events = evs @ [Invoke]\<rparr>
         | Inl error \<Rightarrow>
             if attempt = maxAttempts
             then \<lparr>outcome = Inl (Some error), events = evs @ [Invoke]\<rparr>
             else retry_loop fn maxAttempts baseDelay (attempt + 1) (Some error)
                    (evs @ [Invoke, Wait (baseDelay * 2 ^ (attempt - 1))]))
      else \<lparr>outcome = Inl lastError, events = evs\<rparr>)"
  by pat_completeness auto
termination
  by (relation "measure (\<lambda>(fn, maxAttempts, baseDelay, attempt, lastError, evs).
        maxAttempts + 1 - attempt)") auto

declare retry_loop.simps [simp del]

definition retryWithBackoff ::
  "(nat \<Rightarrow> 'e + 'a) \<Rightarrow> nat \<Rightarrow> int \<Rightarrow> ('e option + 'a) run" where
  "retryWithBackoff fn maxAttempts baseDelay = retry_loop fn maxAttempts baseDelay 1 None []"

subsection \<open>GitLabService.executeWithRetry\<close>

text \<open>The fields of the service that the executor reads, and the constructor's values.\<close>

record gitlab_service =
  retryAttempts :: nat
  retryDelay :: int

definition GitLabService :: gitlab_service where
  "GitLabService = \<lparr>retryAttempts = 3, retryDelay = 1000\<rparr>"

text \<open>
  What one call of \<open>apiCall\<close> gives: a response (its data), a rejection that carries
  an HTTP response (status, the \<^verbatim>\<open>retry-after\<close> header as the number it holds, if
  the header is there, and the payload with its optional \<open>message\<close>), or a rejection
  without a response (the error's message).
\<close>

record error_data =
  data_message :: "string option"

datatype 'd api_outcome =
  Response 'd
  | Http_error int "nat option" error_data
  | No_response string

datatype error_payload = Data error_data | Text string

datatype gitlab_error =
  RateLimitError string
  | GitLabAPIError string int error_payload

text \<open>
  The outcome is \<open>Inr (Some data)\<close> for \<^verbatim>\<open>return response.data\<close>, \<open>Inr None\<close> when
  the loop ends without returning, and \<open>Inl\<close> the error thrown.
\<close>

function execute_loop ::
  "gitlab_service \<Rightarrow> (nat \<Rightarrow> 'd api_outcome) \<Rightarrow> nat \<Rightarrow> event list
     \<Rightarrow> (gitlab_error + 'd option) run" where
  "execute_loop this apiCall attempt evs =
     (if attempt \<le> retryAttempts this then
        (case apiCall attempt of
           Response d \<Rightarrow> \<lparr>outcome = Inr (Some d), events = evs @ [Invoke]\<rparr>
         | Http_error status retry_after d \<Rightarrow>
             if status = 429 then
               (let retryAfter = (case retry_after of Some h \<Rightarrow> int h | None \<Rightarrow> retryDelay this)
                in if attempt = retryAttempts this
                   then \<lparr>outcome = Inl (RateLimitError ''GitLab API rate limit exceeded''),
                         events = evs @ [Invoke]\<rparr>
                   else execute_loop this apiCall (attempt + 1)
                          (evs @ [Invoke, Wait (retryAfter * 1000)]))
             else if status \<ge> 500 \<and> attempt < retryAttempts this then
               execute_loop this apiCall (attempt + 1)
                 (evs @ [Invoke, Wait (retryDelay this * int attempt)])
             else
               \<lparr>outcome = Inl (GitLabAPIError
                    (tpl (or_str (data_message d) (Some (''GitLab API error: '' @ number_text status))))
                    status (Data d)),
                 events = evs @ [Invoke]\<rparr>
         | No_response msg \<Rightarrow>
             if attempt = retryAttempts this
             then \<lparr>outcome = Inl (GitLabAPIError ''GitLab API call failed'' 500 (Text msg)),
                   events = evs @ [Invoke]\<rparr>
             else execute_loop this apiCall (attempt + 1)
                    (evs @ [Invoke, Wait (retryDelay this * int attempt)]))
      else \<lparr>outcome = Inr None, events = evs\<rparr>)"
  by pat_completeness auto
termination
  by (relation "measure (\<lambda>(this, apiCall, attempt, evs). retryAttempts this + 1 - attempt)") auto

declare execute_loop.simps [simp del]

definition executeWithRetry ::
  "gitlab_service \<Rightarrow> (nat \<Rightarrow> 'd api_outcome) \<Rightarrow> (gitlab_error + 'd option) run" where
  "executeWithRetry this apiCall = execute_loop this apiCall 1 []"

section \<open>The job tracker (updateJobProgress)\<close>

text \<open>
  A job of the \<open>reviewJobs\<close> map. Dates are timestamps; \<open>job_id\<close> is the field \<open>id\<close>.
  Fields a job gets later are \<open>None\<close> until then; the record's extension stands for
  any further field.
\<close>

record 'r job =
  job_id :: string
  status :: string
  progress :: int
  startTime :: int
  mrUrl :: string
  projectPath :: string
  mrIid :: int
  baseUrl :: "string option"
  currentStep :: "string option"
  lastUpdated :: "int option"
  endTime :: "int option"
  result :: "'r option"
  error :: "string option"

text \<open>\<open>now\<close> is the value of \<^verbatim>\<open>new Date()\<close> at the call.\<close>

definition updateJobProgress ::
  "(string \<rightharpoonup> ('r, 'z) job_scheme) \<Rightarrow> string \<Rightarrow> int \<Rightarrow> string \<Rightarrow> int
     \<Rightarrow> (string \<rightharpoonup> ('r, 'z) job_scheme)" where
  "updateJobProgress reviewJobs jobId p msg now =
     (case reviewJobs jobId of
        None \<Rightarrow> reviewJobs
      | Some job \<Rightarrow>
          reviewJobs(jobId \<mapsto> job\<lparr>progress := p, currentStep := Some msg, lastUpdated := Some now\<rparr>))"

section \<open>The comment poster (postReviewComments)\<close>









section \<open>Notions used to state the properties\<close>

text \<open>What the chunker's loop has consumed so far.\<close>

definition consumed :: "chunker \<Rightarrow> file_change list" where
  "consumed s = concat (chunks s) @ currentChunk s"

text \<open>A chunk within the limits: at most \<open>maxFilesPerChunk\<close> files, and at most
  \<open>maxLinesPerChunk\<close> changed lines unless it is a single file.\<close>

definition chunk_lines :: "file_change list \<Rightarrow> int" where
  "chunk_lines c = sum_list (map fileLines c)"

definition within_limits :: "file_change list \<Rightarrow> bool" where
  "within_limits c \<longleftrightarrow>
     length c \<le> maxFilesPerChunk \<and> (chunk_lines c \<le> maxLinesPerChunk \<or> length c = 1)"

text \<open>The loop invariant of the chunker.\<close>

definition chunker_inv :: "chunker \<Rightarrow> bool" where
  "chunker_inv s \<longleftrightarrow>
     list_all (\<lambda>c. c \<noteq> [] \<and> within_limits c) (chunks s)
     \<and> currentLines s = chunk_lines (currentChunk s)
     \<and> (currentChunk s = [] \<or> within_limits (currentChunk s))"

text \<open>A file change with the given path and line counts, and nothing else set.\<close>

definition change_of :: "string \<Rightarrow> int \<Rightarrow> int \<Rightarrow> file_change" where
  "change_of path a d =
     \<lparr>new_path = Some path, old_path = Some path, diff = None, additions = Some a,
      deletions = Some d, new_file = False, deleted_file = False, renamed_file = False\<rparr>"

text \<open>
  The number of issues of a given severity in a list of chunk results, counted
  result by result and file by file.
\<close>

definition severity_count :: "string \<Rightarrow> review list \<Rightarrow> nat" where
  "severity_count sev rs =
     (\<Sum>r\<leftarrow>rs. \<Sum>f\<leftarrow>or_nil (fileReviews r). count_list (map severity (or_nil (issues f))) (Some sev))"

text \<open>An issue of a given severity at a given line, the same issue without its type,
  and a chunk result with one reviewed file.\<close>

definition issue_of :: "int option \<Rightarrow> string \<Rightarrow> issue" where
  "issue_of ln sev =
     \<lparr>line = ln, issue_type = Some ''bug'', severity = Some sev, issue_message = ''m'',
      suggestion = None\<rparr>"


definition chunk_result :: "string \<Rightarrow> issue list \<Rightarrow> review" where
  "chunk_result fname is =
     \<lparr>summary = Some ''s'',
      fileReviews = Some [\<lparr>filename = fname, issues = Some is, positives = []\<rparr>],
      overallRecommendation = Some ''approve'', keyInsights = Some [], tokensUsed = Some 7,
      chunk_identifier = Some ''chunk-0'', issueCounts = None, totalTokensUsed = None\<rparr>"

text \<open>A job as \<open>analyzeMergeRequest\<close> creates it.\<close>

definition new_job :: "string \<Rightarrow> int \<Rightarrow> review job" where
  "new_job jid t =
     \<lparr>job_id = jid, status = ''processing'', progress = 0, startTime = t,
      mrUrl = ''https://gitlab.example.com/g/p/-/merge_requests/1'', projectPath = ''g/p'',
      mrIid = 1, baseUrl = Some ''https://gitlab.example.com'', currentStep = None,
      lastUpdated = None, endTime = None, result = None, error = None\<rparr>"

text \<open>
  The events of a run of \<open>retryWithBackoff\<close> that makes \<open>k\<close> attempts: attempt \<open>n\<close>
  is followed by a wait of \<open>baseDelay * 2 ^ (n - 1)\<close> before attempt \<open>n + 1\<close>, and
  nothing follows the last attempt. \<open>backoff_waits\<close> is the part for the attempts
  from \<open>a\<close> up to, and without, \<open>k\<close>.
\<close>

definition backoff_waits :: "int \<Rightarrow> nat \<Rightarrow> nat \<Rightarrow> event list" where
  "backoff_waits baseDelay a k =
     concat (map (\<lambda>n. [Invoke, Wait (baseDelay * 2 ^ (n - 1))]) [a..<k])"

definition backoff_trace :: "int \<Rightarrow> nat \<Rightarrow> event list" where
  "backoff_trace baseDelay k = backoff_waits baseDelay 1 k @ [Invoke]"

text \<open>An operation whose first \<open>n\<close> invocations fail, each with its own error.\<close>

definition fails_then :: "nat \<Rightarrow> 'a \<Rightarrow> nat \<Rightarrow> string + 'a" where
  "fails_then n v k = (if k \<le> n then Inl (''error '' @ decimal k) else Inr v)"

text \<open>An API call that is rejected once, with the given status and
  \<^verbatim>\<open>retry-after\<close> header, and answers after that.\<close>

definition fails_once_with :: "int \<Rightarrow> nat option \<Rightarrow> nat \<Rightarrow> string api_outcome" where
  "fails_once_with code hint k =
     (if k = 1 then Http_error code hint \<lparr>data_message = None\<rparr> else Response ''ok'')"

text \<open>A merge request and five commits.\<close>

definition example_mr :: merge_request where
  "example_mr = \<lparr>mr_title = ''Fix login'', mr_description = None, source_branch = ''fix'',
     target_branch = ''main'', mr_author_name = Some ''dev''\<rparr>"

definition five_commits :: "commit list" where
  "five_commits = map (\<lambda>m. \<lparr>message = m\<rparr>) [''c1'', ''c2'', ''c3'', ''c4'', ''c5'']"






section \<open>Properties of the chunker\<close>

lemma consumed_step: "consumed (chunk_step s c) = consumed s @ [c]"
  by (simp add: chunk_step_def consumed_def Let_def)

lemma consumed_foldl: "consumed (foldl chunk_step s cs) = consumed s @ cs"
  by (induction cs arbitrary: s) (simp_all add: consumed_step)

lemma concat_chunkChanges: "concat (chunkChanges changes) = changes"
proof -
  let ?s = "foldl chunk_step \<lparr>chunks = [], currentChunk = [], currentLines = 0\<rparr> changes"
  have "consumed ?s = consumed \<lparr>chunks = [], currentChunk = [], currentLines = 0\<rparr> @ changes"
    by (rule consumed_foldl)
  then have "consumed ?s = changes"
    by (simp add: consumed_def)
  moreover have "concat (chunkChanges changes) = consumed ?s"
    by (simp add: chunkChanges_def consumed_def Let_def)
  ultimately show ?thesis by simp
qed

lemma chunker_inv_init: "chunker_inv \<lparr>chunks = [], currentChunk = [], currentLines = 0\<rparr>"
  by (simp add: chunker_inv_def chunk_lines_def)

lemma chunker_inv_step:
  assumes "chunker_inv s"
  shows "chunker_inv (chunk_step s c)"
proof (cases "length (currentChunk s) \<ge> maxFilesPerChunk
            \<or> currentLines s + fileLines c > maxLinesPerChunk")
  case True
  show ?thesis
  proof (cases "currentChunk s = []")
    case True
    with assms \<open>_ \<or> _\<close> show ?thesis
      by (simp add: chunk_step_def chunker_inv_def within_limits_def chunk_lines_def
          maxFilesPerChunk_def)
  next
    case False
    with assms \<open>_ \<or> _\<close> show ?thesis
      by (simp add: chunk_step_def chunker_inv_def within_limits_def chunk_lines_def
          maxFilesPerChunk_def)
  qed
next
  case False
  with assms show ?thesis
    by (auto simp add: chunk_step_def chunker_inv_def within_limits_def chunk_lines_def)
qed

lemma chunker_inv_foldl: "chunker_inv s \<Longrightarrow> chunker_inv (foldl chunk_step s cs)"
  by (induction cs arbitrary: s) (simp_all add: chunker_inv_step)

lemma chunkChanges_all_ok:
  "list_all (\<lambda>c. c \<noteq> [] \<and> within_limits c) (chunkChanges changes)"
proof -
  let ?s = "foldl chunk_step \<lparr>chunks = [], currentChunk = [], currentLines = 0\<rparr> changes"
  have "chunker_inv ?s"
    by (rule chunker_inv_foldl [OF chunker_inv_init])
  then show ?thesis
    by (auto simp add: chunkChanges_def chunker_inv_def Let_def)
qed

lemma chunkChanges_fifteen:
  "chunkChanges (replicate 15 (change_of ''f.js'' 1 0))
     = [replicate 10 (change_of ''f.js'' 1 0), replicate 5 (change_of ''f.js'' 1 0)]"
  by (simp add: chunkChanges_def chunk_step_def fileLines_def or0_def change_of_def
      maxFilesPerChunk_def maxLinesPerChunk_def numeral_eq_Suc Let_def)

lemma chunkChanges_a_b:
  "chunkChanges [change_of ''a.js'' 500 0, change_of ''b.js'' 600 0]
     = [[change_of ''a.js'' 500 0], [change_of ''b.js'' 600 0]]"
  by (simp add: chunkChanges_def chunk_step_def fileLines_def or0_def change_of_def
      maxFilesPerChunk_def maxLinesPerChunk_def Let_def)

text \<open>
  Claim C1. For every list of file changes, the chunks that \<open>chunkChanges\<close> returns,
  concatenated in order, are exactly the input list: no file is lost, duplicated or
  reordered. (\<open>chunkChanges\<close> is a function of its input, so the same input gives the
  same chunk boundaries.)
\<close>

theorem chunkChanges_concat: "concat (chunkChanges changes) = changes"
  by (rule concat_chunkChanges)

text \<open>Fifteen files of one changed line each: two chunks, of ten and of five files.\<close>

theorem chunkChanges_concat_witness:
  "chunkChanges (replicate 15 (change_of ''f.js'' 1 0))
     = [replicate 10 (change_of ''f.js'' 1 0), replicate 5 (change_of ''f.js'' 1 0)]
   \<and> concat (chunkChanges (replicate 15 (change_of ''f.js'' 1 0)))
     = replicate 15 (change_of ''f.js'' 1 0)"
  using chunkChanges_concat [of "replicate 15 (change_of ''f.js'' 1 0)"] chunkChanges_fifteen
  by simp

text \<open>
  Claim C2. Every chunk that \<open>chunkChanges\<close> produces has at most \<open>maxFilesPerChunk\<close>
  files, and either the added plus removed line counts of its files sum to at most
  \<open>maxLinesPerChunk\<close> or the chunk is a single file; and no file is dropped.
\<close>

theorem chunkChanges_within_limits:
  "(\<forall>c \<in> set (chunkChanges changes).
      length c \<le> maxFilesPerChunk
      \<and> (sum_list (map fileLines c) \<le> maxLinesPerChunk \<or> length c = 1))
   \<and> concat (chunkChanges changes) = changes"
  using chunkChanges_all_ok [of changes] concat_chunkChanges [of changes]
  by (simp add: list_all_iff within_limits_def chunk_lines_def)

text \<open>a.js with 500 lines and b.js with 600: together over the limit, so two chunks.\<close>

theorem chunkChanges_within_limits_witness:
  "chunkChanges [change_of ''a.js'' 500 0, change_of ''b.js'' 600 0]
     = [[change_of ''a.js'' 500 0], [change_of ''b.js'' 600 0]]
   \<and> length [change_of ''b.js'' 600 0] \<le> maxFilesPerChunk
   \<and> sum_list (map fileLines [change_of ''b.js'' 600 0]) \<le> maxLinesPerChunk
   \<and> concat (chunkChanges [change_of ''a.js'' 500 0, change_of ''b.js'' 600 0])
     = [change_of ''a.js'' 500 0, change_of ''b.js'' 600 0]"
  using chunkChanges_within_limits [of "[change_of ''a.js'' 500 0, change_of ''b.js'' 600 0]"]
    chunkChanges_a_b
  by (simp add: fileLines_def or0_def change_of_def maxLinesPerChunk_def)

section \<open>Properties of the reducer\<close>

lemma count_list_map: "count_list (map f xs) y = length (filter (\<lambda>x. f x = y) xs)"
  by (induction xs) auto

lemma length_filter_concat:
  "length (filter P (concat xss)) = (\<Sum>xs\<leftarrow>xss. length (filter P xs))"
  by (induction xss) auto

lemma severity_count_flat:
  "severity_count sev rs =
     length (filter (\<lambda>issue. severity issue = Some sev)
       (concat (map (\<lambda>file. or_nil (issues file))
          (concat (map (\<lambda>review. or_nil (fileReviews review)) rs)))))"
  by (induction rs) (simp_all add: severity_count_def count_list_map length_filter_concat o_def)

text \<open>
  Claim C3. For two or more chunk results, the overall recommendation of
  \<open>combineReviews\<close> is determined by the numbers of high, medium and low issues over
  all files of all chunk results: request-changes if there is a high issue, otherwise
  comment if there are more than 2 medium or more than 5 low issues, otherwise
  approve. The recommendations of the chunk results themselves play no part.
\<close>

theorem combineReviews_recommendation:
  assumes "2 \<le> length rs"
  shows "overallRecommendation (combineReviews rs) =
           Some (if severity_count ''high'' rs > 0 then ''request-changes''
                 else if severity_count ''medium'' rs > 2 \<or> severity_count ''low'' rs > 5
                      then ''comment''
                 else ''approve'')"
proof -
  from assms have "length rs \<noteq> 1" by simp
  then show ?thesis
    by (simp add: combineReviews_def Let_def severity_count_flat)
qed

text \<open>Two chunk results that each say approve, the first with two high issues.\<close>

theorem combineReviews_recommendation_witness:
  "2 \<le> length [chunk_result ''a.js'' [issue_of (Some 3) ''high'', issue_of (Some 9) ''high''],
                chunk_result ''b.js'' []]
   \<and> overallRecommendation
        (combineReviews [chunk_result ''a.js'' [issue_of (Some 3) ''high'', issue_of (Some 9) ''high''],
                         chunk_result ''b.js'' []])
      = Some ''request-changes''"
  using combineReviews_recommendation
    [of "[chunk_result ''a.js'' [issue_of (Some 3) ''high'', issue_of (Some 9) ''high''],
          chunk_result ''b.js'' []]"]
  by (simp add: severity_count_def chunk_result_def issue_of_def or_nil_def)

text \<open>
  Claim C4. \<open>combineReviews\<close> of a single chunk result returns that result unchanged;
  in particular its \<open>issueCounts\<close> and \<open>totalTokensUsed\<close> fields are what they were.
\<close>

theorem combineReviews_single:
  "combineReviews [r] = r
   \<and> issueCounts (combineReviews [r]) = issueCounts r
   \<and> totalTokensUsed (combineReviews [r]) = totalTokensUsed r"
  by (simp add: combineReviews_def)

text \<open>A chunk result has neither field, and neither has the reduction of it alone.\<close>

theorem combineReviews_single_witness:
  "combineReviews [chunk_result ''a.js'' [issue_of (Some 3) ''high'']]
     = chunk_result ''a.js'' [issue_of (Some 3) ''high'']
   \<and> issueCounts (combineReviews [chunk_result ''a.js'' [issue_of (Some 3) ''high'']]) = None
   \<and> totalTokensUsed (combineReviews [chunk_result ''a.js'' [issue_of (Some 3) ''high'']]) = None"
  using combineReviews_single [of "chunk_result ''a.js'' [issue_of (Some 3) ''high'']"]
  by (simp add: chunk_result_def)

text \<open>
  Claim C9. \<open>combineReviews\<close> of no chunk results returns a combined result: no file
  reviews, no key insights, zero high, medium and low issues, the recommendation
  approve, 0 tokens, and a summary that reports 0 files and 0 issues.
\<close>

theorem combineReviews_empty:
  "combineReviews [] =
     \<lparr>summary = Some ''Reviewed 0 files with 0 total issues found: 0 high, 0 medium, 0 low severity issues.'',
      fileReviews = Some [],
      overallRecommendation = Some ''approve'',
      keyInsights = Some [],
      tokensUsed = None,
      chunk_identifier = None,
      issueCounts = Some \<lparr>high = 0, medium = 0, low = 0\<rparr>,
      totalTokensUsed = Some 0\<rparr>"
  by (simp add: combineReviews_def decimal.simps digit_def)

section \<open>Properties of the job tracker\<close>

text \<open>
  Claim C10. For a job that is in the map, \<open>updateJobProgress\<close> sets its progress,
  currentStep and lastUpdated and leaves every other field of it as it was; the jobs
  under other ids are untouched; and when the id is not in the map, the map is
  unchanged (the function has no failing branch).
\<close>

theorem updateJobProgress_frame:
  "(reviewJobs jobId = Some job \<longrightarrow>
      (\<exists>job'. updateJobProgress reviewJobs jobId p msg now jobId = Some job'
         \<and> progress job' = p \<and> currentStep job' = Some msg \<and> lastUpdated job' = Some now
         \<and> job_id job' = job_id job \<and> status job' = status job
         \<and> startTime job' = startTime job \<and> endTime job' = endTime job
         \<and> result job' = result job \<and> error job' = error job
         \<and> mrUrl job' = mrUrl job \<and> projectPath job' = projectPath job
         \<and> mrIid job' = mrIid job \<and> baseUrl job' = baseUrl job
         \<and> job.more job' = job.more job))
   \<and> (\<forall>other. other \<noteq> jobId \<longrightarrow>
         updateJobProgress reviewJobs jobId p msg now other = reviewJobs other)
   \<and> (reviewJobs jobId = None \<longrightarrow> updateJobProgress reviewJobs jobId p msg now = reviewJobs)"
  by (auto simp add: updateJobProgress_def split: option.splits)

text \<open>A map with the jobs j1 and j2: j1 advances, j2 stays, and an unknown id changes
  nothing.\<close>

theorem updateJobProgress_frame_witness:
  "[''j1'' \<mapsto> new_job ''j1'' 5, ''j2'' \<mapsto> new_job ''j2'' 6] ''j1'' = Some (new_job ''j1'' 5)
   \<and> map_option progress
        (updateJobProgress [''j1'' \<mapsto> new_job ''j1'' 5, ''j2'' \<mapsto> new_job ''j2'' 6]
           ''j1'' 25 ''Fetching diffs and commits...'' 9 ''j1'') = Some 25
   \<and> map_option status
        (updateJobProgress [''j1'' \<mapsto> new_job ''j1'' 5, ''j2'' \<mapsto> new_job ''j2'' 6]
           ''j1'' 25 ''Fetching diffs and commits...'' 9 ''j1'') = Some ''processing''
   \<and> updateJobProgress [''j1'' \<mapsto> new_job ''j1'' 5, ''j2'' \<mapsto> new_job ''j2'' 6]
        ''j1'' 25 ''Fetching diffs and commits...'' 9 ''j2'' = Some (new_job ''j2'' 6)
   \<and> [''j1'' \<mapsto> new_job ''j1'' 5, ''j2'' \<mapsto> new_job ''j2'' 6] ''j3'' = None
   \<and> updateJobProgress [''j1'' \<mapsto> new_job ''j1'' 5, ''j2'' \<mapsto> new_job ''j2'' 6]
        ''j3'' 25 ''Fetching diffs and commits...'' 9
      = [''j1'' \<mapsto> new_job ''j1'' 5, ''j2'' \<mapsto> new_job ''j2'' 6]"
proof -
  let ?jobs = "[''j1'' \<mapsto> new_job ''j1'' 5, ''j2'' \<mapsto> new_job ''j2'' 6]"
  have present: "?jobs ''j1'' = Some (new_job ''j1'' 5)" and absent: "?jobs ''j3'' = None"
    by simp_all
  note frame = updateJobProgress_frame [where 'a = review and 'b = unit]
  from frame [of ?jobs "''j1''" "new_job ''j1'' 5" 25 "''Fetching diffs and commits...''" 9]
    present
  obtain job' where
    j: "updateJobProgress ?jobs ''j1'' 25 ''Fetching diffs and commits...'' 9 ''j1'' = Some job'"
      "progress job' = 25" "status job' = status (new_job ''j1'' 5)"
    by blast
  from frame [of ?jobs "''j1''" "new_job ''j1'' 5" 25 "''Fetching diffs and commits...''" 9]
  have other:
    "updateJobProgress ?jobs ''j1'' 25 ''Fetching diffs and commits...'' 9 ''j2'' = ?jobs ''j2''"
    by simp
  from frame [of ?jobs "''j3''" "new_job ''j3'' 0" 25 "''Fetching diffs and commits...''" 9]
    absent
  have unknown: "updateJobProgress ?jobs ''j3'' 25 ''Fetching diffs and commits...'' 9 = ?jobs"
    by blast
  from j other unknown present absent show ?thesis
    by (simp add: new_job_def)
qed

section \<open>Properties of the retry executors\<close>

lemma backoff_waits_same: "backoff_waits b k k = []"
  by (simp add: backoff_waits_def)

lemma backoff_waits_step:
  "a < k \<Longrightarrow> backoff_waits b a k = [Invoke, Wait (b * 2 ^ (a - 1))] @ backoff_waits b (Suc a) k"
  by (simp add: backoff_waits_def upt_conv_Cons)

lemma retry_loop_stops:
  assumes "a \<le> k" and "k \<le> m"
    and "\<forall>j. a \<le> j \<and> j < k \<longrightarrow> isl (fn j)"
    and "\<not> isl (fn k) \<or> k = m"
  shows "retry_loop fn m b a le evs =
           \<lparr>outcome = (case fn k of Inr v \<Rightarrow> Inr v | Inl e \<Rightarrow> Inl (Some e)),
            events = evs @ backoff_waits b a k @ [Invoke]\<rparr>"
  using assms
proof (induction "k - a" arbitrary: a le evs)
  case 0
  then have "a = k" by simp
  with 0 show ?case
    by (subst retry_loop.simps) (auto simp add: backoff_waits_same split: sum.splits)
next
  case (Suc d)
  then have less: "a < k" by simp
  with Suc.prems obtain e where e: "fn a = Inl e"
    by (metis isl_def order_refl)
  from less Suc.prems have ne: "a \<noteq> m" "a \<le> m" by simp_all
  have "retry_loop fn m b a le evs =
          retry_loop fn m b (a + 1) (Some e) (evs @ [Invoke, Wait (b * 2 ^ (a - 1))])"
    using e ne by (subst retry_loop.simps) simp
  also have "\<dots> = \<lparr>outcome = (case fn k of Inr v \<Rightarrow> Inr v | Inl e \<Rightarrow> Inl (Some e)),
            events = (evs @ [Invoke, Wait (b * 2 ^ (a - 1))]) @ backoff_waits b (a + 1) k @ [Invoke]\<rparr>"
    using Suc.hyps(2) Suc.prems less by (intro Suc.hyps(1)) auto
  finally show ?case
    using less by (simp add: backoff_waits_step)
qed

lemma retry_loop_invocations:
  "length (filter (\<lambda>e. e = Invoke) (events (retry_loop fn m b a le evs)))
     \<le> length (filter (\<lambda>e. e = Invoke) evs) + (m + 1 - a)"
proof (induction fn m b a le evs rule: retry_loop.induct)
  case (1 fn m b a le evs)
  show ?case
  proof (cases "a \<le> m")
    case False
    then show ?thesis by (subst retry_loop.simps) simp
  next
    case True
    show ?thesis
    proof (cases "fn a")
      case (Inr v)
      with True show ?thesis by (subst retry_loop.simps) simp
    next
      case (Inl e)
      show ?thesis
      proof (cases "a = m")
        case True
        with Inl show ?thesis by (subst retry_loop.simps) simp
      next
        case False
        with True Inl "1.IH" [of e] show ?thesis
          by (subst retry_loop.simps) simp
      qed
    qed
  qed
qed

lemma backoff_trace_counts:
  "length (filter (\<lambda>e. e = Invoke) (backoff_trace b k)) = Suc (k - 1)
   \<and> length (filter (\<lambda>e. e \<noteq> Invoke) (backoff_trace b k)) = k - 1"
proof -
  have "length (filter (\<lambda>e. e = Invoke) (backoff_waits b a k)) = k - a
        \<and> length (filter (\<lambda>e. e \<noteq> Invoke) (backoff_waits b a k)) = k - a" for a
    by (induction k) (simp_all add: backoff_waits_def Suc_diff_le)
  then show ?thesis
    by (simp add: backoff_trace_def)
qed

lemma backoff_trace_3: "backoff_trace 1000 3 = [Invoke, Wait 1000, Invoke, Wait 2000, Invoke]"
  by (simp add: backoff_trace_def backoff_waits_def upt_conv_Cons)

text \<open>
  Claim C5. With \<open>maxAttempts\<close> at least 1, \<open>retryWithBackoff\<close> invokes the operation
  at most \<open>maxAttempts\<close> times. If the first success is at attempt \<open>k\<close>, within
  \<open>maxAttempts\<close>, its value is returned after \<open>k\<close> invocations and \<open>k - 1\<close> waits, the
  wait before attempt \<open>n + 1\<close> being \<open>baseDelay * 2 ^ (n - 1)\<close>. If all \<open>maxAttempts\<close>
  attempts fail, the error of the last attempt is thrown as it is, after the same
  waits and none after the last attempt.
\<close>

theorem retryWithBackoff_policy:
  assumes "1 \<le> maxAttempts"
  shows
   "length (filter (\<lambda>e. e = Invoke) (events (retryWithBackoff fn maxAttempts baseDelay)))
      \<le> maxAttempts
    \<and> (\<forall>k v. 1 \<le> k \<and> k \<le> maxAttempts \<and> (\<forall>j. 1 \<le> j \<and> j < k \<longrightarrow> isl (fn j)) \<and> fn k = Inr v \<longrightarrow>
          retryWithBackoff fn maxAttempts baseDelay
            = \<lparr>outcome = Inr v, events = backoff_trace baseDelay k\<rparr>)
    \<and> ((\<forall>j. 1 \<le> j \<and> j \<le> maxAttempts \<longrightarrow> isl (fn j)) \<longrightarrow>
          (\<exists>e. fn maxAttempts = Inl e
             \<and> retryWithBackoff fn maxAttempts baseDelay
                 = \<lparr>outcome = Inl (Some e), events = backoff_trace baseDelay maxAttempts\<rparr>))"
proof (intro conjI allI impI)
  show "length (filter (\<lambda>e. e = Invoke) (events (retryWithBackoff fn maxAttempts baseDelay)))
      \<le> maxAttempts"
    using retry_loop_invocations [of fn maxAttempts baseDelay 1 None "[]"]
    by (simp add: retryWithBackoff_def)
next
  fix k v
  assume h: "1 \<le> k \<and> k \<le> maxAttempts \<and> (\<forall>j. 1 \<le> j \<and> j < k \<longrightarrow> isl (fn j)) \<and> fn k = Inr v"
  then show "retryWithBackoff fn maxAttempts baseDelay
            = \<lparr>outcome = Inr v, events = backoff_trace baseDelay k\<rparr>"
    using retry_loop_stops [of 1 k maxAttempts fn baseDelay None "[]"]
    by (simp add: retryWithBackoff_def backoff_trace_def)
next
  assume h: "\<forall>j. 1 \<le> j \<and> j \<le> maxAttempts \<longrightarrow> isl (fn j)"
  with assms obtain e where e: "fn maxAttempts = Inl e"
    by (metis isl_def order_refl)
  from h have "\<forall>j. 1 \<le> j \<and> j < maxAttempts \<longrightarrow> isl (fn j)" by simp
  with assms e
  have "retryWithBackoff fn maxAttempts baseDelay
                 = \<lparr>outcome = Inl (Some e), events = backoff_trace baseDelay maxAttempts\<rparr>"
    using retry_loop_stops [of 1 maxAttempts maxAttempts fn baseDelay None "[]"]
    by (simp add: retryWithBackoff_def backoff_trace_def)
  with e show "\<exists>e. fn maxAttempts = Inl e
             \<and> retryWithBackoff fn maxAttempts baseDelay
                 = \<lparr>outcome = Inl (Some e), events = backoff_trace baseDelay maxAttempts\<rparr>"
    by blast
qed

text \<open>Three attempts with a base delay of 1000: failing twice and then succeeding,
  and failing every time.\<close>

theorem retryWithBackoff_policy_witness:
  "(1::nat) \<le> 3
   \<and> retryWithBackoff (fails_then 2 (42::int)) 3 1000
       = \<lparr>outcome = Inr 42, events = [Invoke, Wait 1000, Invoke, Wait 2000, Invoke]\<rparr>
   \<and> retryWithBackoff (fails_then 3 (42::int)) 3 1000
       = \<lparr>outcome = Inl (Some ''error 3''), events = [Invoke, Wait 1000, Invoke, Wait 2000, Invoke]\<rparr>
   \<and> length (filter (\<lambda>e. e = Invoke) (events (retryWithBackoff (fails_then 3 (42::int)) 3 1000))) \<le> 3"
proof -
  have three: "(1::nat) \<le> 3" by simp
  note policy = retryWithBackoff_policy [OF three, where baseDelay = 1000]
  have "retryWithBackoff (fails_then 2 (42::int)) 3 1000
       = \<lparr>outcome = Inr 42, events = backoff_trace 1000 3\<rparr>"
    using policy [of "fails_then 2 (42::int)", THEN conjunct2, THEN conjunct1, rule_format, of 3 42]
    by (simp add: fails_then_def)
  moreover have "\<exists>e. fails_then 3 (42::int) 3 = Inl e \<and> retryWithBackoff (fails_then 3 (42::int)) 3 1000
       = \<lparr>outcome = Inl (Some e), events = backoff_trace 1000 3\<rparr>"
    using policy [of "fails_then 3 (42::int)", THEN conjunct2, THEN conjunct2]
    by (simp add: fails_then_def)
  then have "retryWithBackoff (fails_then 3 (42::int)) 3 1000
       = \<lparr>outcome = Inl (Some ''error 3''), events = backoff_trace 1000 3\<rparr>"
    by (auto simp add: fails_then_def decimal.simps digit_def)
  moreover note policy [of "fails_then 3 (42::int)", THEN conjunct1]
  ultimately show ?thesis
    by (simp add: backoff_trace_3)
qed

text \<open>
  Claim C6. On a 429 without a \<^verbatim>\<open>retry-after\<close> header the executor is to wait
  \<open>retryDelay\<close>, which is 1000 milliseconds. \<open>executeWithRetry\<close> multiplies the fallback
  by 1000 as it does the header's seconds, and waits 1000000 milliseconds; the
  server-error path waits \<open>retryDelay * attempt\<close>, 1000 milliseconds on the first
  attempt, and a header of 30 seconds gives a wait of 30000 milliseconds.
\<close>

theorem executeWithRetry_rate_limit_wait:
  "executeWithRetry GitLabService (fails_once_with 429 None)
     = \<lparr>outcome = Inr (Some ''ok''), events = [Invoke, Wait 1000000, Invoke]\<rparr>
   \<and> retryDelay GitLabService = 1000
   \<and> executeWithRetry GitLabService (fails_once_with 503 None)
     = \<lparr>outcome = Inr (Some ''ok''), events = [Invoke, Wait 1000, Invoke]\<rparr>
   \<and> executeWithRetry GitLabService (fails_once_with 429 (Some 30))
     = \<lparr>outcome = Inr (Some ''ok''), events = [Invoke, Wait 30000, Invoke]\<rparr>"
  by (simp add: executeWithRetry_def execute_loop.simps GitLabService_def fails_once_with_def)

section \<open>Properties of the prompt\<close>

lemma bullet_fun: "(@) ''- '' = (\<lambda>msg. CHR ''-'' # CHR '' '' # msg)"
  by (rule ext) simp

lemma contextHeader_commits:
  "contextHeader (prepareMRContext mr changes commits) i n
     = contextHeader (prepareMRContext mr changes []) i n"
  by (simp add: contextHeader_def prepareMRContext_def)

lemma promptCommitMessages_prepare:
  "promptCommitMessages (prepareMRContext mr changes commits) = take 3 (map message commits)"
  by (simp add: promptCommitMessages_def prepareMRContext_def take_map)

text \<open>
  Claim C7, as amended. The context keeps the first 5 commit messages (all of them
  when there are fewer), and the prompt sent for each chunk lists the first 3 of
  them (all when there are fewer than 3) and depends on the commits in no other way:
  the lines before the messages are those of a context built from no commits.
\<close>

theorem reviewPrompts_commit_messages:
  "reviewPrompts sys mr changes commits =
     map (\<lambda>(index, chunk).
            sys @ nl @ nl
            @ contextHeader (prepareMRContext mr changes []) index (length (chunkChanges changes))
            @ join nl (map (\<lambda>msg. ''- '' @ msg) (take 3 (map message commits))) @ nl
            @ nl @ nl @ ''Changes to review:'' @ nl @ join nl (map fileInfo chunk))
         (enumerate 0 (chunkChanges changes))
   \<and> recentCommitMessages (prepareMRContext mr changes commits) = take 5 (map message commits)"
proof
  show "recentCommitMessages (prepareMRContext mr changes commits) = take 5 (map message commits)"
    by (simp add: prepareMRContext_def take_map)
  show "reviewPrompts sys mr changes commits =
     map (\<lambda>(index, chunk).
            sys @ nl @ nl
            @ contextHeader (prepareMRContext mr changes []) index (length (chunkChanges changes))
            @ join nl (map (\<lambda>msg. ''- '' @ msg) (take 3 (map message commits))) @ nl
            @ nl @ nl @ ''Changes to review:'' @ nl @ join nl (map fileInfo chunk))
         (enumerate 0 (chunkChanges changes))"
    unfolding reviewPrompts_def Let_def buildReviewPrompt_def contextInfo_def
      promptCommitMessages_prepare contextHeader_commits [of mr changes commits]
    by (simp add: case_prod_beta bullet_fun)
qed

text \<open>
  With five commits the prompt does not list the first five messages: it lists three,
  and it is the prompt that the first three commits alone would give.
\<close>

theorem reviewPrompts_commit_messages_counterexample:
  "promptCommitMessages (prepareMRContext example_mr [change_of ''a.js'' 1 0] five_commits)
     \<noteq> take 5 (map message five_commits)
   \<and> reviewPrompts ''SYSTEM'' example_mr [change_of ''a.js'' 1 0] five_commits
     = reviewPrompts ''SYSTEM'' example_mr [change_of ''a.js'' 1 0] (take 3 five_commits)"
  by (simp add: promptCommitMessages_prepare five_commits_def reviewPrompts_def Let_def
      buildReviewPrompt_def contextInfo_def contextHeader_commits [of _ _ "[_,_,_,_,_]"]
      contextHeader_commits [of _ _ "[_,_,_]"])

section \<open>Properties of the comment poster\<close>













end
